theory Spec2Isabelle
  imports Main "HOL-Library.AList" "HOL-Library.Sublist"
begin

section \<open>JavaScript values as the chat client handles them\<close>

text \<open>
  The client (\<^verbatim>\<open>src/ui/ChatApp.jsx\<close>) works on JSON data received over REST and over the
  socket. A value is one of the JSON shapes, or \<^verbatim>\<open>undefined\<close> (what reading an absent
  property gives). Numbers are kept to the integers: every number the handlers look at is an
  identifier or a counter, and no arithmetic beyond \<^verbatim>\<open>+ 1\<close> is done on them.
  An object is its list of own properties in insertion order; a property read takes the
  first binding of the name. Objects are plain dictionaries: prototype accessors such as
  \<^verbatim>\<open>__proto__\<close> are outside the model.
\<close>

datatype jsval =
    JUndefined
  | JNull
  | JBool bool
  | JNum int
  | JStr string
  | JArr "jsval list"
  | JObj "(string \<times> jsval) list"

type_synonym obj = "(string \<times> jsval) list"

text \<open>\<^verbatim>\<open>o.k\<close> on an object \<open>o\<close>: the value bound to \<open>k\<close>, or \<^verbatim>\<open>undefined\<close>.\<close>

definition fld :: "obj \<Rightarrow> string \<Rightarrow> jsval" where
  "fld ob k = (case map_of ob k of None \<Rightarrow> JUndefined | Some v \<Rightarrow> v)"

text \<open>\<^verbatim>\<open>{ ...o, k: v }\<close>: an existing binding keeps its place, a new one goes last.\<close>

definition set_field :: "string \<Rightarrow> jsval \<Rightarrow> obj \<Rightarrow> obj" where
  "set_field k v ob = AList.update k v ob"

text \<open>Truthiness (\<^verbatim>\<open>!!v\<close>) and the operator \<^verbatim>\<open>a || b\<close>.\<close>

fun truthy :: "jsval \<Rightarrow> bool" where
  "truthy JUndefined = False"
| "truthy JNull = False"
| "truthy (JBool b) = b"
| "truthy (JNum n) = (n \<noteq> 0)"
| "truthy (JStr s) = (s \<noteq> [])"
| "truthy (JArr xs) = True"
| "truthy (JObj kvs) = True"

definition js_or :: "jsval \<Rightarrow> jsval \<Rightarrow> jsval" where
  "js_or a b = (if truthy a then a else b)"

text \<open>Decimal digits of a number, for \<^verbatim>\<open>String(n)\<close> and for template strings.\<close>

definition digit_char :: "nat \<Rightarrow> char" where
  "digit_char d = ''0123456789'' ! d"

function nat_dec :: "nat \<Rightarrow> string" where
  "nat_dec n = (if n < 10 then [digit_char n] else nat_dec (n div 10) @ [digit_char (n mod 10)])"
  by pat_completeness auto
termination
  by (relation "measure id") auto

declare nat_dec.simps [simp del]

definition int_dec :: "int \<Rightarrow> string" where
  "int_dec i = (if i < 0 then CHR ''-'' # nat_dec (nat (- i)) else nat_dec (nat i))"

text \<open>\<^verbatim>\<open>Array.prototype.join\<close> with the default separator.\<close>

fun js_join :: "string list \<Rightarrow> string" where
  "js_join [] = []"
| "js_join [s] = s"
| "js_join (s # t # ts) = s @ '','' @ js_join (t # ts)"

text \<open>
  \<^verbatim>\<open>String(v)\<close>. An array prints its elements joined by commas, \<^verbatim>\<open>null\<close> and
  \<^verbatim>\<open>undefined\<close> elements as the empty string; every plain object prints the same text.
\<close>

fun js_String :: "jsval \<Rightarrow> string" where
  "js_String JUndefined = ''undefined''"
| "js_String JNull = ''null''"
| "js_String (JBool b) = (if b then ''true'' else ''false'')"
| "js_String (JNum n) = int_dec n"
| "js_String (JStr s) = s"
| "js_String (JArr xs) =
     js_join (map (\<lambda>x. if x = JUndefined \<or> x = JNull then [] else js_String x) xs)"
| "js_String (JObj kvs) = ''[object Object]''"

text \<open>
  The own enumerable properties that an object spread \<^verbatim>\<open>{ ...v }\<close> copies: those of an
  object, the indexed elements of an array, the indexed characters of a string, and nothing
  for the other values.
\<close>

fun own_props :: "jsval \<Rightarrow> obj" where
  "own_props (JObj kvs) = kvs"
| "own_props (JArr xs) = zip (map nat_dec [0..<length xs]) xs"
| "own_props (JStr s) = zip (map nat_dec [0..<length s]) (map (\<lambda>c. JStr [c]) s)"
| "own_props v = []"

text \<open>
  A property read \<^verbatim>\<open>v.k\<close> on any value: \<^verbatim>\<open>null\<close> and \<^verbatim>\<open>undefined\<close> throw a
  TypeError, an object gives the binding, and the names the client reads (\<^verbatim>\<open>id\<close>,
  \<^verbatim>\<open>_id\<close>, \<^verbatim>\<open>status\<close>) are absent on the other values.
\<close>

datatype js_error = TypeError | Thrown string

fun js_prop :: "jsval \<Rightarrow> string \<Rightarrow> js_error + jsval" where
  "js_prop JUndefined k = Inl TypeError"
| "js_prop JNull k = Inl TypeError"
| "js_prop (JObj kvs) k = Inr (fld kvs k)"
| "js_prop v k = Inr JUndefined"

text \<open>The same read where the value is known not to be \<^verbatim>\<open>null\<close> or \<^verbatim>\<open>undefined\<close>.\<close>

definition read_prop :: "jsval \<Rightarrow> string \<Rightarrow> jsval" where
  "read_prop v k = (case v of JObj kvs \<Rightarrow> fld kvs k | _ \<Rightarrow> JUndefined)"

section \<open>Identifier normalisation\<close>

text \<open>
  The client writes \<^verbatim>\<open>String(x.id || x._id)\<close> wherever it compares entities
  (lines 70, 241, 269, 302, 346, 369, 382, 502, 535). \<open>canonical_id_js\<close> is that expression
  on an arbitrary value, \<open>canonical_id\<close> the same on an object.
\<close>

definition canonical_id_js :: "jsval \<Rightarrow> js_error + string" where
  "canonical_id_js x =
     (case js_prop x ''id'' of
        Inl e \<Rightarrow> Inl e
      | Inr a \<Rightarrow>
          if truthy a then Inr (js_String a)
          else (case js_prop x ''_id'' of Inl e \<Rightarrow> Inl e | Inr b \<Rightarrow> Inr (js_String b)))"

definition raw_id :: "obj \<Rightarrow> jsval" where
  "raw_id x = js_or (fld x ''id'') (fld x ''_id'')"

definition canonical_id :: "obj \<Rightarrow> string" where
  "canonical_id x = js_String (raw_id x)"

section \<open>Component state\<close>

text \<open>
  The socket handle as the component sees it: the three flags \<^verbatim>\<open>send\<close> reads, and
  whether a call of \<^verbatim>\<open>socket.emit\<close> throws (the handlers wrap their emits in
  \<^verbatim>\<open>try\<close>/\<^verbatim>\<open>catch\<close>).
\<close>

record socket_io =
  sock_connected :: bool
  sock_connecting :: bool
  sock_disconnected :: bool
  emit_throws :: bool

text \<open>
  The React state of \<^verbatim>\<open>ChatApp\<close> that the handlers touch, the session user, and what the
  component has sent out: socket emissions, alerts, chat fetches started by
  \<^verbatim>\<open>handleNewMessage\<close>, and calls of \<^verbatim>\<open>socket.connect()\<close>. Every setter of
  \<open>chats\<close> and \<open>messages\<close> in the file stores an array, so both are lists and the
  guard \<^verbatim>\<open>Array.isArray(prev) ? prev : []\<close> of the updaters is the identity. The refs
  \<^verbatim>\<open>activeRef\<close> and \<^verbatim>\<open>userRef\<close> are kept equal to \<open>active\<close> and \<open>user\<close> by their
  effects (lines 30-36) and are read from the state.
\<close>

record state =
  loading :: bool
  chats :: "obj list"
  active :: "obj option"
  messages :: "obj list"
  input :: string
  unreadCounts :: "(string \<times> nat) list"
  socketConnected :: bool
  user :: "obj option"
  socket :: "socket_io option"
  emitted :: "(string \<times> jsval) list"
  alerts :: "string list"
  fetches :: "jsval list"
  connectCalls :: nat

text \<open>\<^verbatim>\<open>String(currentUser?.id)\<close>.\<close>

definition user_id :: "obj option \<Rightarrow> jsval" where
  "user_id u = (case u of None \<Rightarrow> JUndefined | Some x \<Rightarrow> fld x ''id'')"

text \<open>
  \<^verbatim>\<open>socket.emit(name, payload)\<close> inside \<^verbatim>\<open>try { ... } catch {}\<close>: with no socket or a
  throwing emit nothing goes out and the exception is swallowed.
\<close>

definition try_emit :: "(string \<times> jsval) list \<Rightarrow> state \<Rightarrow> state" where
  "try_emit es s =
     (case socket s of
        None \<Rightarrow> s
      | Some sk \<Rightarrow> if emit_throws sk then s else s\<lparr>emitted := emitted s @ es\<rparr>)"

section \<open>The message:new handler (lines 222-329)\<close>

text \<open>The updater given to \<^verbatim>\<open>setMessages\<close> (lines 238-249).\<close>

definition handleNewMessage_setMessages :: "obj \<Rightarrow> obj list \<Rightarrow> obj list" where
  "handleNewMessage_setMessages message prev =
     (let list = prev;
          exists = list_ex (\<lambda>m. canonical_id m = canonical_id message) list
      in if exists then list else list @ [message])"

text \<open>
  The updater given to \<^verbatim>\<open>setChats\<close> (lines 265-318). The second component tells whether
  the updater started the asynchronous fetch of the chat (lines 297-315).
\<close>

definition handleNewMessage_setChats :: "jsval \<Rightarrow> obj \<Rightarrow> obj list \<Rightarrow> obj list \<times> bool" where
  "handleNewMessage_setChats chatId message prev =
     (let list = prev;
          chatIdStr = js_String chatId;
          exists = list_ex (\<lambda>c. canonical_id c = chatIdStr) list
      in if exists then
           (map (\<lambda>c. if canonical_id c = chatIdStr
                      then set_field ''lastMessage'' (JObj message) c else c) list, False)
         else if truthy (fld message ''chatInfo'') then
           (let chat = set_field ''lastMessage'' (JObj message) (own_props (fld message ''chatInfo''));
                alreadyExists = list_ex (\<lambda>c. canonical_id c = canonical_id chat) list
            in if \<not> alreadyExists then (chat # list, False) else (list, False))
         else (list, True))"

text \<open>
  The updater run when the fetch of lines 297-315 resolves with \<open>chat\<close> (lines 300-311).
  A failed fetch is caught and changes nothing.
\<close>

definition fetched_setChats :: "obj \<Rightarrow> obj list \<Rightarrow> obj list" where
  "fetched_setChats chat cur =
     (let currentList = cur;
          chatIdStr2 = canonical_id chat;
          exists2 = list_ex (\<lambda>c. canonical_id c = chatIdStr2) currentList
      in if \<not> exists2 then chat # currentList else currentList)"

text \<open>The updater given to \<^verbatim>\<open>setUnreadCounts\<close> (lines 322-327).\<close>

definition handleNewMessage_setUnreadCounts ::
  "jsval \<Rightarrow> (string \<times> nat) list \<Rightarrow> (string \<times> nat) list" where
  "handleNewMessage_setUnreadCounts chatId prev =
     (let ident = js_String chatId;
          old = (case map_of prev ident of None \<Rightarrow> 0 | Some n \<Rightarrow> n)
      in AList.update ident (old + 1) prev)"

definition handleNewMessage :: "obj \<Rightarrow> state \<Rightarrow> state" where
  "handleNewMessage message s =
     (let chatId = js_or (fld message ''chat'') (fld message ''chatId'') in
      if \<not> truthy chatId then s
      else
        let currentActive = active s;
            currentUser = user s;
            currentActiveChatId = (case currentActive of None \<Rightarrow> JUndefined | Some a \<Rightarrow> raw_id a);
            isActive = (js_String chatId = js_String currentActiveChatId \<and> currentActive \<noteq> None);
            fromOther = (js_String (fld message ''sender'') \<noteq> js_String (user_id currentUser));
            s1 = (if isActive then
                    (let sa = s\<lparr>messages := handleNewMessage_setMessages message (messages s)\<rparr>
                     in if (case socket sa of None \<Rightarrow> False | Some sk \<Rightarrow> sock_connected sk) \<and> fromOther
                        then try_emit
                               [(''message:delivered'', JObj [(''messageId'', raw_id message)]),
                                (''message:seen'', JObj [(''messageIds'', JArr [raw_id message])])] sa
                        else sa)
                  else s);
            upd = handleNewMessage_setChats chatId message (chats s1);
            s2 = s1\<lparr>chats := fst upd,
                     fetches := (if snd upd then fetches s1 @ [chatId] else fetches s1)\<rparr>
        in if \<not> isActive \<and> fromOther
           then s2\<lparr>unreadCounts := handleNewMessage_setUnreadCounts chatId (unreadCounts s2)\<rparr>
           else s2)"

section \<open>The chat:created handler (lines 341-363)\<close>

definition chatCreated_setChats :: "obj \<Rightarrow> obj list \<Rightarrow> obj list" where
  "chatCreated_setChats chat prev =
     (let list = prev;
          chatIdStr = canonical_id chat;
          exists = list_ex (\<lambda>c. canonical_id c = chatIdStr) list
      in if exists then map (\<lambda>c. if canonical_id c = chatIdStr then chat else c) list
         else chat # list)"

text \<open>The payload is \<open>None\<close> when the event carries no chat (\<^verbatim>\<open>if (!chat) return\<close>).\<close>

definition chatCreated :: "obj option \<Rightarrow> state \<Rightarrow> state" where
  "chatCreated payload s =
     (case payload of
        None \<Rightarrow> s
      | Some chat \<Rightarrow>
          try_emit [(''chat:join'', raw_id chat)]
            (s\<lparr>chats := chatCreated_setChats chat (chats s)\<rparr>))"

text \<open>The completion of the fetch started by \<^verbatim>\<open>handleNewMessage\<close>.\<close>

definition fetchResolved :: "obj \<Rightarrow> state \<Rightarrow> state" where
  "fetchResolved chat s = s\<lparr>chats := fetched_setChats chat (chats s)\<rparr>"

text \<open>
  The three places that can put a chat into the list, as events. The runtime is
  single-threaded, so an interleaving of them is a list of events applied one after another.
\<close>

datatype chat_event = MessageNew obj | FetchResolved obj | ChatCreated "obj option"

fun step :: "chat_event \<Rightarrow> state \<Rightarrow> state" where
  "step (MessageNew m) s = handleNewMessage m s"
| "step (FetchResolved c) s = fetchResolved c s"
| "step (ChatCreated p) s = chatCreated p s"

section \<open>The message:status handler (lines 364-388)\<close>

text \<open>\<^verbatim>\<open>const st = { ...(x.status || {}) }; st[userId] = status;\<close>\<close>

definition patched_status :: "jsval \<Rightarrow> jsval \<Rightarrow> jsval \<Rightarrow> obj" where
  "patched_status old userId status =
     AList.update (js_String userId) status (own_props (js_or old (JObj [])))"

definition messageStatus_setMessages :: "jsval \<Rightarrow> jsval \<Rightarrow> jsval \<Rightarrow> obj list \<Rightarrow> obj list" where
  "messageStatus_setMessages messageId userId status prev =
     map (\<lambda>m. let mid = canonical_id m in
               if mid \<noteq> js_String messageId then m
               else (let st = patched_status (fld m ''status'') userId status
                     in set_field ''status'' (JObj st) m)) prev"

definition messageStatus_setChats :: "jsval \<Rightarrow> jsval \<Rightarrow> jsval \<Rightarrow> obj list \<Rightarrow> obj list" where
  "messageStatus_setChats messageId userId status prev =
     map (\<lambda>c. let lm = fld c ''lastMessage'' in
               if \<not> truthy lm then c
               else if js_String (js_or (read_prop lm ''id'') (read_prop lm ''_id'')) \<noteq> js_String messageId
               then c
               else (let st = patched_status (read_prop lm ''status'') userId status
                     in set_field ''lastMessage''
                          (JObj (set_field ''status'' (JObj st) (own_props lm))) c)) prev"

text \<open>The handler destructures \<^verbatim>\<open>{ messageId, userId, status }\<close> from its payload.\<close>

definition messageStatus :: "obj \<Rightarrow> state \<Rightarrow> state" where
  "messageStatus payload s =
     (let messageId = fld payload ''messageId'';
          userId = fld payload ''userId'';
          status = fld payload ''status''
      in s\<lparr>messages := messageStatus_setMessages messageId userId status (messages s),
            chats := messageStatus_setChats messageId userId status (chats s)\<rparr>)"

section \<open>Loading the chat list (lines 58-91)\<close>

text \<open>
  What \<^verbatim>\<open>await apiGet("/api/chats", token)\<close> can give: a rejection, an array, another
  truthy value (an object), or a falsy value.
\<close>

datatype api_result = Rejected | ArrayData "obj list" | ObjectData obj | FalsyData

text \<open>One round of the \<^verbatim>\<open>forEach\<close> of lines 69-75, on \<open>(uniqueChats, seenIds)\<close>.\<close>

definition dedupe_step :: "obj \<Rightarrow> obj list \<times> string set \<Rightarrow> obj list \<times> string set" where
  "dedupe_step chat acc =
     (let uniqueChats = fst acc; seenIds = snd acc; chatId = canonical_id chat
      in if chatId \<notin> seenIds then (uniqueChats @ [chat], insert chatId seenIds)
         else (uniqueChats, seenIds))"

text \<open>
  \<^verbatim>\<open>loadChats\<close> is started by the effect on \<^verbatim>\<open>[token]\<close> and continues when the response
  arrives. \<open>res\<close> is the response and \<open>s\<close> the state at that moment. The tests
  \<^verbatim>\<open>!active\<close> of lines 77 and 80 read the variable of the render in which the effect ran:
  \<open>captured\<close> is the active chat of that render (none at mount), whatever has been
  activated since.
\<close>

definition loadChats :: "api_result \<Rightarrow> obj option \<Rightarrow> state \<Rightarrow> state" where
  "loadChats res captured s =
     (case res of
        Rejected \<Rightarrow> s\<lparr>loading := False\<rparr>
      | ArrayData data \<Rightarrow>
          (let uniqueChats = fst (fold dedupe_step data ([], {}));
               s1 = s\<lparr>chats := uniqueChats\<rparr>
           in (case uniqueChats of
                 [] \<Rightarrow> s1
               | first # rest \<Rightarrow> if captured = None then s1\<lparr>active := Some first\<rparr> else s1)
              \<lparr>loading := False\<rparr>)
      | ObjectData data \<Rightarrow>
          (let s1 = s\<lparr>chats := [data]\<rparr>
           in (if captured = None then s1\<lparr>active := Some data\<rparr> else s1)\<lparr>loading := False\<rparr>)
      | FalsyData \<Rightarrow> s\<lparr>chats := [], loading := False\<rparr>)"

section \<open>Sending (lines 428-530)\<close>

text \<open>
  \<^verbatim>\<open>String.prototype.trim\<close> strips the code points of ECMAScript's WhiteSpace and
  LineTerminator from both ends. \<open>is_white_space\<close> is that table: tab, vertical tab, form
  feed, space, no-break space, U+FEFF and the other space separators (U+1680, U+2000 to
  U+200A, U+202F, U+205F, U+3000), and the line terminators line feed, carriage return,
  U+2028 and U+2029. All of them are single UTF-16 code units. A character of a string
  here is a code unit below U+0100 (what the eight bits of \<open>char\<close> hold), so seven of
  them can occur in an input.
\<close>

definition is_white_space :: "nat \<Rightarrow> bool" where
  "is_white_space u =
     (u \<in> set [0x0009, 0x000B, 0x000C, 0x0020, 0x00A0, 0xFEFF,
                0x1680, 0x202F, 0x205F, 0x3000,
                0x000A, 0x000D, 0x2028, 0x2029] \<or>
      (0x2000 \<le> u \<and> u \<le> 0x200A))"

definition is_space :: "char \<Rightarrow> bool" where
  "is_space c = is_white_space (of_char c)"

definition js_trim :: "string \<Rightarrow> string" where
  "js_trim s = rev (dropWhile is_space (rev (dropWhile is_space s)))"

definition maxWait :: nat where
  "maxWait = 5000"

definition checkInterval :: nat where
  "checkInterval = 200"

text \<open>
  The polling loop of lines 453-461. \<open>conn k\<close> is what \<^verbatim>\<open>socket.connected\<close> reads after
  the \<open>k\<close>-th timer has fired, \<open>cur\<close> what it reads now; between two awaits it cannot
  change. The result is the last reading and the value of \<^verbatim>\<open>waited\<close>.
\<close>

function wait_loop :: "(nat \<Rightarrow> bool) \<Rightarrow> bool \<Rightarrow> nat \<Rightarrow> nat \<Rightarrow> bool \<times> nat" where
  "wait_loop conn cur waited k =
     (if \<not> cur \<and> waited < maxWait then
        (let waited' = waited + checkInterval;
             cur' = conn (Suc k)
         in if cur' then (cur', waited') else wait_loop conn cur' waited' (Suc k))
      else (cur, waited))"
  by pat_completeness auto
termination
  by (relation "measure (\<lambda>(conn, cur, waited, k). maxWait - waited)")
     (auto simp: checkInterval_def)

declare wait_loop.simps [simp del]

text \<open>Lines 445-447: \<^verbatim>\<open>socket.connect()\<close> unless the socket is connecting or disconnected.\<close>

definition request_connect :: "socket_io \<Rightarrow> state \<Rightarrow> state" where
  "request_connect sk s =
     (if \<not> sock_connecting sk \<and> \<not> sock_disconnected sk
      then s\<lparr>connectCalls := connectCalls s + 1\<rparr> else s)"

text \<open>
  The object literal of lines 476-484, for the chat \<open>a\<close>, the trimmed content and the
  user \<open>u\<close>. \<open>now\<close> is \<^verbatim>\<open>Date.now()\<close> and \<open>stamp\<close> is
  \<^verbatim>\<open>new Date().toISOString()\<close>.
\<close>

definition optimisticMsg :: "nat \<Rightarrow> string \<Rightarrow> obj \<Rightarrow> string \<Rightarrow> obj \<Rightarrow> obj" where
  "optimisticMsg now stamp a messageContent u =
     [(''id'', JStr (''temp-'' @ nat_dec now)),
      (''chat'', raw_id a),
      (''sender'', fld u ''id''),
      (''content'', JStr messageContent),
      (''createdAt'', JStr stamp),
      (''status'', JObj [(js_String (fld u ''id''), JStr ''sent'')]),
      (''optimistic'', JBool True)]"

text \<open>
  Lines 471-529, once the socket \<open>sk\<close> is connected. The chat \<open>a\<close>, the text \<open>inp\<close>
  and the user \<open>usr\<close> are the variables \<^verbatim>\<open>active\<close>, \<^verbatim>\<open>input\<close> and \<^verbatim>\<open>user\<close> of the
  render whose \<^verbatim>\<open>send\<close> was called; the setters act on the state \<open>s\<close> of the moment.
  Reading \<^verbatim>\<open>user.id\<close> with no user throws before anything is stored. The ack callback
  is \<open>send_ack\<close> below.
\<close>

definition send_message ::
  "nat \<Rightarrow> string \<Rightarrow> obj \<Rightarrow> string \<Rightarrow> obj option \<Rightarrow> socket_io \<Rightarrow> state \<Rightarrow> js_error + state" where
  "send_message now stamp a inp usr sk s =
     (case usr of
        None \<Rightarrow> Inl TypeError
      | Some u \<Rightarrow>
          (let tempId = ''temp-'' @ nat_dec now;
               chatId = raw_id a;
               messageContent = js_trim inp;
               s1 = s\<lparr>messages := messages s @ [optimisticMsg now stamp a messageContent u],
                      input := []\<rparr>
           in if emit_throws sk then
                Inr (s1\<lparr>messages := filter (\<lambda>m. fld m ''id'' \<noteq> JStr tempId) (messages s1),
                        alerts := alerts s1 @ [''Failed to send message. Please try again.'']\<rparr>)
              else
                Inr (s1\<lparr>emitted := emitted s1 @
                        [(''message:send'',
                          JObj [(''chatId'', chatId), (''content'', JStr messageContent)])]\<rparr>)))"

text \<open>
  \<^verbatim>\<open>send\<close>, called in the state \<open>s\<close>. Its tests and the message it builds use the
  variables of that render. When the socket is connected nothing is awaited and every
  update acts on \<open>s\<close>. When it is not, \<^verbatim>\<open>send\<close> sleeps between polls and other handlers
  run in between: \<open>during\<close> is what they make of the state by the time the loop ends, and
  the updates after the loop act on that state.
\<close>

definition send ::
  "nat \<Rightarrow> string \<Rightarrow> (nat \<Rightarrow> bool) \<Rightarrow> (state \<Rightarrow> state) \<Rightarrow> state \<Rightarrow> js_error + state" where
  "send now stamp conn during s =
     (case active s of
        None \<Rightarrow> Inr s
      | Some a \<Rightarrow>
          if js_trim (input s) = [] then Inr s
          else
            (case socket s of
               None \<Rightarrow> Inr (s\<lparr>alerts := alerts s @
                                 [''Socket not initialized. Please refresh the page.'']\<rparr>)
             | Some sk \<Rightarrow>
                 if \<not> sock_connected sk then
                   (let polled = wait_loop conn (sock_connected sk) 0 0;
                        t = during (request_connect sk s);
                        sk' = sk\<lparr>sock_connected := fst polled\<rparr>
                    in if \<not> fst polled then
                         Inr (t\<lparr>socket := Some sk', socketConnected := False,
                                alerts := alerts t @
                                  [''Not connected to server. Please check your connection and refresh the page.'']\<rparr>)
                       else send_message now stamp a (input s) (user s) sk'
                              (t\<lparr>socket := Some sk', socketConnected := True\<rparr>))
                 else send_message now stamp a (input s) (user s) sk s))"

text \<open>
  The acknowledgment the server passes to the callback of lines 495-520: \<^verbatim>\<open>ack.ok\<close>,
  \<^verbatim>\<open>ack.message\<close> (a message object, or absent), \<^verbatim>\<open>ack.error\<close>. \<open>None\<close> is a missing
  ack.
\<close>

record ack =
  ack_ok :: jsval
  ack_message :: "obj option"
  ack_error :: jsval

definition send_ack :: "string \<Rightarrow> ack option \<Rightarrow> state \<Rightarrow> state" where
  "send_ack tempId a s =
     (case a of
        None \<Rightarrow> s
      | Some ak \<Rightarrow>
          (case (if truthy (ack_ok ak) then ack_message ak else None) of
             Some msg \<Rightarrow>
               s\<lparr>messages :=
                   (let list = messages s;
                        realId = raw_id msg;
                        already = list_ex (\<lambda>m. canonical_id m = js_String realId) list
                    in if already then filter (\<lambda>m. fld m ''id'' \<noteq> JStr tempId) list
                       else map (\<lambda>m. if fld m ''id'' = JStr tempId then msg else m) list)\<rparr>
           | None \<Rightarrow>
               if truthy (ack_error ak) then
                 s\<lparr>messages := filter (\<lambda>m. fld m ''id'' \<noteq> JStr tempId) (messages s),
                    alerts := alerts s @ [''Message failed: '' @ js_String (ack_error ak)]\<rparr>
               else s))"

section \<open>The effect run when the active chat changes (lines 533-551)\<close>

definition clear_unread :: "string \<Rightarrow> (string \<times> nat) list \<Rightarrow> (string \<times> nat) list" where
  "clear_unread cid prev =
     (if (case map_of prev cid of None \<Rightarrow> True | Some n \<Rightarrow> n = 0) then prev
      else AList.delete cid prev)"

definition seen_ids :: "obj option \<Rightarrow> obj list \<Rightarrow> jsval list" where
  "seen_ids u msgs =
     (let otherMessages = filter (\<lambda>m. js_String (fld m ''sender'') \<noteq> js_String (user_id u)) msgs
      in filter truthy (map raw_id otherMessages))"

definition activation_effect :: "state \<Rightarrow> state" where
  "activation_effect s =
     (case active s of
        None \<Rightarrow> s
      | Some a \<Rightarrow>
          (let cid = canonical_id a;
               s1 = s\<lparr>unreadCounts := clear_unread cid (unreadCounts s)\<rparr>;
               ids = seen_ids (user s) (messages s)
           in if ids \<noteq> [] then try_emit [(''message:seen'', JObj [(''messageIds'', JArr ids)])] s1
              else s1))"

section \<open>Decrypting a message body\<close>

text \<open>
  \<^verbatim>\<open>decryptMessage\<close> calls the library \<^verbatim>\<open>crypto-js\<close>, which is not part of the repository:
  \<open>aes_decrypt\<close> stands for \<^verbatim>\<open>CryptoJS.AES.decrypt\<close> and \<open>to_utf8\<close> for
  \<^verbatim>\<open>bytes.toString(CryptoJS.enc.Utf8)\<close>; either may throw.
\<close>

definition MESSAGE_SECRET_KEY :: string where
  "MESSAGE_SECRET_KEY = ''LSKDJFL3K4JJKFDLLJL45PMNE4N5''"

text \<open>The body of the \<^verbatim>\<open>try\<close> block.\<close>

definition decryptMessage_try ::
  "(jsval \<Rightarrow> string \<Rightarrow> js_error + 'b) \<Rightarrow> ('b \<Rightarrow> js_error + string) \<Rightarrow> jsval \<Rightarrow> js_error + string" where
  "decryptMessage_try aes_decrypt to_utf8 cipherText =
     (case aes_decrypt cipherText MESSAGE_SECRET_KEY of
        Inl e \<Rightarrow> Inl e
      | Inr bytes \<Rightarrow> (case to_utf8 bytes of Inl e \<Rightarrow> Inl e | Inr originalText \<Rightarrow> Inr originalText))"

definition decryptMessage ::
  "(jsval \<Rightarrow> string \<Rightarrow> js_error + 'b) \<Rightarrow> ('b \<Rightarrow> js_error + string) \<Rightarrow> jsval \<Rightarrow> js_error + string" where
  "decryptMessage aes_decrypt to_utf8 cipherText =
     (case decryptMessage_try aes_decrypt to_utf8 cipherText of
        Inr originalText \<Rightarrow> Inr originalText
      | Inl error \<Rightarrow> Inr ''[Invalid Encrypted Data]'')"

section \<open>Notions used to state the properties\<close>

text \<open>The number of entries of a list that carry the canonical id \<open>k\<close>.\<close>

definition count_id :: "string \<Rightarrow> obj list \<Rightarrow> nat" where
  "count_id k xs = length (filter (\<lambda>x. canonical_id x = k) xs)"

text \<open>
  A message:new event is delivered to the active chat when it names a chat and that chat
  is the active one (the test \<^verbatim>\<open>isActive\<close> of line 234).
\<close>

definition targets_active :: "obj \<Rightarrow> state \<Rightarrow> bool" where
  "targets_active m s =
     (let chatId = js_or (fld m ''chat'') (fld m ''chatId'') in
      truthy chatId \<and>
      (case active s of None \<Rightarrow> False | Some a \<Rightarrow> js_String chatId = js_String (raw_id a)))"

text \<open>
  An event is an insert trigger for the chat id \<open>k\<close>: a message:new for chat \<open>k\<close> that
  embeds the chat \<open>k\<close> as \<^verbatim>\<open>chatInfo\<close>, a fetch that resolved with chat \<open>k\<close>, or a
  chat:created for chat \<open>k\<close>.
\<close>

fun inserts_chat :: "string \<Rightarrow> chat_event \<Rightarrow> bool" where
  "inserts_chat k (MessageNew m) =
     (let chatId = js_or (fld m ''chat'') (fld m ''chatId'') in
      truthy chatId \<and> js_String chatId = k \<and> truthy (fld m ''chatInfo'') \<and>
      canonical_id (own_props (fld m ''chatInfo'')) = k)"
| "inserts_chat k (FetchResolved c) = (canonical_id c = k)"
| "inserts_chat k (ChatCreated p) = (case p of None \<Rightarrow> False | Some c \<Rightarrow> canonical_id c = k)"

text \<open>A state to evaluate the handlers on: user \<^verbatim>\<open>u1\<close>, a connected socket, nothing else.\<close>

definition state0 :: state where
  "state0 =
     \<lparr>loading = True, chats = [], active = None, messages = [], input = [],
      unreadCounts = [], socketConnected = True,
      user = Some [(''id'', JStr ''u1'')],
      socket = Some \<lparr>sock_connected = True, sock_connecting = False,
                     sock_disconnected = False, emit_throws = False\<rparr>,
      emitted = [], alerts = [], fetches = [], connectCalls = 0\<rparr>"

text \<open>
  The entries of \<open>xs\<close> whose canonical id is neither in \<open>seen\<close> nor carried by an
  earlier entry of \<open>xs\<close>: what deduplication keeping first occurrences leaves.
\<close>

primrec firsts :: "string set \<Rightarrow> obj list \<Rightarrow> obj list" where
  "firsts seen [] = []"
| "firsts seen (x # xs) =
     (if canonical_id x \<in> seen then firsts seen xs
      else x # firsts (insert (canonical_id x) seen) xs)"

text \<open>
  The cached last message of chat \<open>c\<close> carries the canonical id \<open>mid\<close> (the two tests of
  lines 381-382).
\<close>

definition last_message_matches :: "string \<Rightarrow> obj \<Rightarrow> bool" where
  "last_message_matches mid c =
     (let lm = fld c ''lastMessage'' in
      truthy lm \<and> js_String (js_or (read_prop lm ''id'') (read_prop lm ''_id'')) = mid)"

text \<open>The status map held in \<open>v\<close>: its entries, none when \<open>v\<close> is absent.\<close>

definition status_map :: "jsval \<Rightarrow> obj" where
  "status_map v = own_props (js_or v (JObj []))"

text \<open>
  \<open>new\<close> is the status map \<open>old\<close> with the entry of \<open>userId\<close> set to \<open>status\<close> and
  every other entry as before.
\<close>

definition status_patched :: "jsval \<Rightarrow> jsval \<Rightarrow> jsval \<Rightarrow> jsval \<Rightarrow> bool" where
  "status_patched userId status old new =
     (case new of
        JObj st \<Rightarrow> map_of st = (map_of (status_map old))(js_String userId \<mapsto> status)
      | _ \<Rightarrow> False)"

text \<open>The unread counter of a chat as the sidebar reads it (\<^verbatim>\<open>unreadCounts[id] || 0\<close>, line 704).\<close>

definition unread_of :: "(string \<times> nat) list \<Rightarrow> string \<Rightarrow> nat" where
  "unread_of counts cid = (case map_of counts cid of None \<Rightarrow> 0 | Some n \<Rightarrow> n)"

text \<open>There is a socket and its \<^verbatim>\<open>emit\<close> does not throw.\<close>

definition can_emit :: "state \<Rightarrow> bool" where
  "can_emit s = (case socket s of None \<Rightarrow> False | Some sk \<Rightarrow> \<not> emit_throws sk)"

text \<open>
  The message is not authored by the user \<open>u\<close>, by the test the client uses
  (\<^verbatim>\<open>String(m.sender) !== String(user?.id)\<close>).
\<close>

definition from_other :: "obj option \<Rightarrow> obj \<Rightarrow> bool" where
  "from_other u m = (js_String (fld m ''sender'') \<noteq> js_String (user_id u))"

section \<open>Facts about values, identifiers and counting\<close>

lemmas eval_defs = state0_def canonical_id_def raw_id_def js_or_def fld_def

lemma fld_set_field: "fld (set_field k v ob) k' = (if k' = k then v else fld ob k')"
  by (simp add: fld_def set_field_def update_conv')

lemma canonical_id_lastMessage [simp]:
  "canonical_id (set_field ''lastMessage'' v c) = canonical_id c"
  by (simp add: canonical_id_def raw_id_def fld_set_field)

lemma list_ex_count: "list_ex (\<lambda>x. canonical_id x = k) xs \<longleftrightarrow> count_id k xs \<noteq> 0"
  by (simp add: count_id_def list_ex_iff filter_empty_conv)

lemma list_ex_ids: "list_ex (\<lambda>x. canonical_id x = k) xs \<longleftrightarrow> k \<in> canonical_id ` set xs"
  by (auto simp: list_ex_iff)

lemma count_id_Nil [simp]: "count_id k [] = 0"
  by (simp add: count_id_def)

lemma count_id_Cons [simp]:
  "count_id k (x # xs) = (if canonical_id x = k then 1 else 0) + count_id k xs"
  by (simp add: count_id_def)

lemma count_id_append [simp]: "count_id k (xs @ ys) = count_id k xs + count_id k ys"
  by (simp add: count_id_def)

lemma count_id_zero: "k \<notin> canonical_id ` set xs \<Longrightarrow> count_id k xs = 0"
  by (induction xs) auto

lemma distinct_count_id:
  "distinct (map canonical_id xs) \<Longrightarrow> k \<in> canonical_id ` set xs \<Longrightarrow> count_id k xs = 1"
  by (induction xs) (auto simp: count_id_zero)

section \<open>Duplicate message:new events\<close>

lemma setMessages_count:
  assumes "canonical_id m = k" and "count_id k prev \<le> 1"
  shows "count_id k (handleNewMessage_setMessages m prev) = 1"
proof (cases "list_ex (\<lambda>x. canonical_id x = canonical_id m) prev")
  case True
  with assms have "count_id k prev \<noteq> 0" by (simp add: list_ex_count)
  with assms True show ?thesis by (simp add: handleNewMessage_setMessages_def)
next
  case False
  with assms have "count_id k prev = 0" by (simp add: list_ex_count)
  with assms False show ?thesis by (simp add: handleNewMessage_setMessages_def)
qed

lemma setMessages_idem:
  "handleNewMessage_setMessages m (handleNewMessage_setMessages m prev) =
   handleNewMessage_setMessages m prev"
  by (auto simp: handleNewMessage_setMessages_def Let_def)

lemma handleNewMessage_active [simp]: "active (handleNewMessage m s) = active s"
  by (simp add: handleNewMessage_def Let_def try_emit_def split: option.splits)

lemma handleNewMessage_messages:
  "messages (handleNewMessage m s) =
     (if targets_active m s then handleNewMessage_setMessages m (messages s) else messages s)"
  by (auto simp add: handleNewMessage_def targets_active_def Let_def try_emit_def
        split: option.splits)

lemma targets_active_step [simp]:
  "targets_active m (handleNewMessage m' s) = targets_active m s"
  by (simp add: targets_active_def)

lemma fold_new_keeps_one:
  "\<forall>m\<in>set ms. targets_active m s \<and> canonical_id m = k \<Longrightarrow> count_id k (messages s) = 1 \<Longrightarrow>
   count_id k (messages (fold handleNewMessage ms s)) = 1"
proof (induction ms arbitrary: s)
  case Nil
  then show ?case by simp
next
  case (Cons m ms)
  have "count_id k (messages (handleNewMessage m s)) = 1"
    using Cons.prems by (simp add: handleNewMessage_messages setMessages_count)
  moreover have "\<forall>x\<in>set ms. targets_active x (handleNewMessage m s) \<and> canonical_id x = k"
    using Cons.prems by simp
  ultimately show ?case using Cons.IH by simp
qed

text \<open>
  C1. Take a thread that holds at most one entry with the canonical id \<open>k\<close>, and any
  non-empty sequence of message:new events for the active chat whose messages all have the
  canonical id \<open>k\<close>. After the handler has run on all of them the thread holds exactly one
  entry with that id. Running the handler a second time on the same event leaves the thread
  as the first run left it.
\<close>

theorem message_new_duplicates_one_entry:
  assumes "ms \<noteq> []"
    and "\<forall>m\<in>set ms. targets_active m s \<and> canonical_id m = k"
    and "count_id k (messages s) \<le> 1"
  shows "count_id k (messages (fold handleNewMessage ms s)) = 1 \<and>
         messages (handleNewMessage e (handleNewMessage e s)) = messages (handleNewMessage e s)"
proof
  obtain m ms' where ms: "ms = m # ms'" using assms(1) by (cases ms) auto
  have one: "count_id k (messages (handleNewMessage m s)) = 1"
    using assms(2,3) ms by (simp add: handleNewMessage_messages setMessages_count)
  have "\<forall>x\<in>set ms'. targets_active x (handleNewMessage m s) \<and> canonical_id x = k"
    using assms(2) ms by simp
  from fold_new_keeps_one[OF this one]
  show "count_id k (messages (fold handleNewMessage ms s)) = 1"
    by (simp add: ms)
  show "messages (handleNewMessage e (handleNewMessage e s)) = messages (handleNewMessage e s)"
    by (simp add: handleNewMessage_messages setMessages_idem)
qed


theorem message_new_duplicates_one_entry_witness:
  "count_id ''m1''
     (messages (fold handleNewMessage
        [[(''id'', JStr ''m1''), (''chat'', JStr ''c1''), (''sender'', JStr ''u2'')],
         [(''_id'', JStr ''m1''), (''chatId'', JStr ''c1''), (''sender'', JStr ''u2'')]]
        (state0\<lparr>active := Some [(''id'', JStr ''c1'')]\<rparr>))) = 1"
  using message_new_duplicates_one_entry
    [of "[[(''id'', JStr ''m1''), (''chat'', JStr ''c1''), (''sender'', JStr ''u2'')],
         [(''_id'', JStr ''m1''), (''chatId'', JStr ''c1''), (''sender'', JStr ''u2'')]]"
        "state0\<lparr>active := Some [(''id'', JStr ''c1'')]\<rparr>" "''m1''"]
  by (simp add: eval_defs targets_active_def count_id_def)

section \<open>Events without a chat id\<close>

text \<open>
  C10. A message:new event whose payload has no \<^verbatim>\<open>chat\<close> and no \<^verbatim>\<open>chatId\<close> (an absent
  field reads as \<^verbatim>\<open>undefined\<close>; the same holds for any two falsy values) leaves the whole
  state as it was: thread, chat list, unread counters, and the list of emissions.
\<close>

theorem message_new_without_chat_id_noop:
  assumes "\<not> truthy (fld message ''chat'')" and "\<not> truthy (fld message ''chatId'')"
  shows "handleNewMessage message s = s"
  using assms by (simp add: handleNewMessage_def js_or_def)

theorem message_new_without_chat_id_noop_witness:
  "handleNewMessage [(''id'', JStr ''m1''), (''sender'', JStr ''u2'')]
     (state0\<lparr>active := Some [(''id'', JStr ''c1'')]\<rparr>) =
   state0\<lparr>active := Some [(''id'', JStr ''c1'')]\<rparr>"
  using message_new_without_chat_id_noop
    [of "[(''id'', JStr ''m1''), (''sender'', JStr ''u2'')]"
        "state0\<lparr>active := Some [(''id'', JStr ''c1'')]\<rparr>"]
  by (simp add: fld_def)

section \<open>Racing chat inserts\<close>

lemma ids_setChats_new:
  "map canonical_id (fst (handleNewMessage_setChats cid m cs)) =
     (if list_ex (\<lambda>c. canonical_id c = js_String cid) cs then map canonical_id cs
      else if truthy (fld m ''chatInfo'') \<and>
              canonical_id (own_props (fld m ''chatInfo'')) \<notin> canonical_id ` set cs
      then canonical_id (own_props (fld m ''chatInfo'')) # map canonical_id cs
      else map canonical_id cs)"
  by (simp add: handleNewMessage_setChats_def Let_def list_ex_ids comp_def cong: map_cong)

lemma ids_fetched:
  "map canonical_id (fetched_setChats c cs) =
     (if canonical_id c \<in> canonical_id ` set cs then map canonical_id cs
      else canonical_id c # map canonical_id cs)"
  by (simp add: fetched_setChats_def Let_def list_ex_ids)

lemma ids_created:
  "map canonical_id (chatCreated_setChats c cs) =
     (if canonical_id c \<in> canonical_id ` set cs then map canonical_id cs
      else canonical_id c # map canonical_id cs)"
  by (simp add: chatCreated_setChats_def Let_def list_ex_ids comp_def cong: map_cong)

lemma idset_new:
  "canonical_id ` set (fst (handleNewMessage_setChats cid m cs)) =
     (if list_ex (\<lambda>c. canonical_id c = js_String cid) cs then canonical_id ` set cs
      else if truthy (fld m ''chatInfo'') \<and>
              canonical_id (own_props (fld m ''chatInfo'')) \<notin> canonical_id ` set cs
      then insert (canonical_id (own_props (fld m ''chatInfo''))) (canonical_id ` set cs)
      else canonical_id ` set cs)"
  unfolding set_map[symmetric] ids_setChats_new by simp

lemma idset_fetched:
  "canonical_id ` set (fetched_setChats c cs) = insert (canonical_id c) (canonical_id ` set cs)"
  unfolding set_map[symmetric] ids_fetched by auto

lemma idset_created:
  "canonical_id ` set (chatCreated_setChats c cs) = insert (canonical_id c) (canonical_id ` set cs)"
  unfolding set_map[symmetric] ids_created by auto

lemma chats_try_emit [simp]: "chats (try_emit es s) = chats s"
  by (simp add: try_emit_def split: option.splits)

lemma chats_handleNewMessage:
  "chats (handleNewMessage m s) =
     (let chatId = js_or (fld m ''chat'') (fld m ''chatId'') in
      if truthy chatId then fst (handleNewMessage_setChats chatId m (chats s)) else chats s)"
  by (simp add: handleNewMessage_def Let_def try_emit_def split: option.splits)

lemma step_distinct:
  "distinct (map canonical_id (chats s)) \<Longrightarrow> distinct (map canonical_id (chats (step e s)))"
proof (cases e)
  case (MessageNew m)
  assume "distinct (map canonical_id (chats s))"
  with MessageNew show ?thesis
    by (simp add: chats_handleNewMessage Let_def ids_setChats_new)
next
  case (FetchResolved c)
  assume "distinct (map canonical_id (chats s))"
  with FetchResolved show ?thesis by (simp add: fetchResolved_def ids_fetched)
next
  case (ChatCreated p)
  assume "distinct (map canonical_id (chats s))"
  with ChatCreated show ?thesis by (cases p) (simp_all add: chatCreated_def ids_created)
qed

lemma step_present:
  "inserts_chat k e \<Longrightarrow> k \<in> canonical_id ` set (chats (step e s))"
proof (cases e)
  case (MessageNew m)
  assume "inserts_chat k e"
  with MessageNew show ?thesis
    by (simp add: chats_handleNewMessage Let_def idset_new list_ex_ids)
next
  case (FetchResolved c)
  assume "inserts_chat k e"
  with FetchResolved show ?thesis by (simp add: fetchResolved_def idset_fetched)
next
  case (ChatCreated p)
  assume "inserts_chat k e"
  with ChatCreated show ?thesis
    by (cases p) (simp_all add: chatCreated_def idset_created)
qed

lemma step_keeps:
  "k \<in> canonical_id ` set (chats s) \<Longrightarrow> k \<in> canonical_id ` set (chats (step e s))"
proof (cases e)
  case (MessageNew m)
  assume "k \<in> canonical_id ` set (chats s)"
  with MessageNew show ?thesis
    by (simp add: chats_handleNewMessage Let_def idset_new)
next
  case (FetchResolved c)
  assume "k \<in> canonical_id ` set (chats s)"
  with FetchResolved show ?thesis by (simp add: fetchResolved_def idset_fetched)
next
  case (ChatCreated p)
  assume "k \<in> canonical_id ` set (chats s)"
  with ChatCreated show ?thesis
    by (cases p) (simp_all add: chatCreated_def idset_created)
qed

lemma fold_distinct:
  "distinct (map canonical_id (chats s)) \<Longrightarrow> distinct (map canonical_id (chats (fold step es s)))"
  by (induction es arbitrary: s) (auto intro: step_distinct)

lemma fold_keeps:
  "k \<in> canonical_id ` set (chats s) \<Longrightarrow> k \<in> canonical_id ` set (chats (fold step es s))"
  by (induction es arbitrary: s) (auto intro: step_keeps)

text \<open>
  C2. Start from a chat list whose entries have pairwise different canonical ids (in
  particular one that does not hold the new chat). Whatever events of the three kinds are
  applied, in whatever order, the ids stay pairwise different; and when the events are insert
  triggers for the chat id \<open>k\<close> (at least one of them), the list ends with exactly one entry
  with the canonical id \<open>k\<close>.
\<close>

theorem chat_insert_race_one_entry:
  assumes "distinct (map canonical_id (chats s))"
  shows "distinct (map canonical_id (chats (fold step es s))) \<and>
         (es \<noteq> [] \<and> list_all (inserts_chat k) es \<longrightarrow> count_id k (chats (fold step es s)) = 1)"
proof (intro conjI impI)
  show d: "distinct (map canonical_id (chats (fold step es s)))"
    using assms by (rule fold_distinct)
  assume a: "es \<noteq> [] \<and> list_all (inserts_chat k) es"
  then obtain e es' where es: "es = e # es'" by (cases es) auto
  with a have "inserts_chat k e" by simp
  then have "k \<in> canonical_id ` set (chats (step e s))" by (rule step_present)
  then have "k \<in> canonical_id ` set (chats (fold step es' (step e s)))" by (rule fold_keeps)
  with d show "count_id k (chats (fold step es s)) = 1"
    by (simp add: es distinct_count_id)
qed

theorem chat_insert_race_one_entry_witness:
  "count_id ''c1''
     (chats (fold step
        [MessageNew [(''id'', JStr ''m1''), (''chat'', JStr ''c1''),
                     (''chatInfo'', JObj [(''_id'', JStr ''c1'')])],
         FetchResolved [(''id'', JStr ''c1''), (''name'', JStr ''fetched'')],
         ChatCreated (Some [(''_id'', JStr ''c1'')])]
        state0)) = 1"
  using chat_insert_race_one_entry
    [of state0
        "[MessageNew [(''id'', JStr ''m1''), (''chat'', JStr ''c1''),
                      (''chatInfo'', JObj [(''_id'', JStr ''c1'')])],
          FetchResolved [(''id'', JStr ''c1''), (''name'', JStr ''fetched'')],
          ChatCreated (Some [(''_id'', JStr ''c1'')])]"
        "''c1''"]
  by (simp add: eval_defs)

section \<open>Properties of loading the chat list\<close>

lemma fold_dedupe_step:
  "fold dedupe_step data (acc, seen) =
     (acc @ firsts seen data, seen \<union> canonical_id ` set (firsts seen data))"
  by (induction data arbitrary: acc seen) (auto simp: dedupe_step_def Let_def)

lemma firsts_ids: "canonical_id ` set (firsts seen xs) = canonical_id ` set xs - seen"
  by (induction xs arbitrary: seen) auto

lemma firsts_distinct: "distinct (map canonical_id (firsts seen xs))"
  by (induction xs arbitrary: seen) (auto simp: firsts_ids)

lemma firsts_subseq: "subseq (firsts seen xs) xs"
  by (induction xs arbitrary: seen) auto

lemma firsts_find:
  "find (\<lambda>c. canonical_id c = k) (firsts seen xs) =
     (if k \<in> seen then None else find (\<lambda>c. canonical_id c = k) xs)"
  by (induction xs arbitrary: seen) auto

lemma loadChats_array_chats: "chats (loadChats (ArrayData data) captured s) = firsts {} data"
  by (simp add: loadChats_def Let_def fold_dedupe_step split: list.splits)

lemma loadChats_array_active:
  "active (loadChats (ArrayData data) captured s) =
     (if captured = None then (case firsts {} data of [] \<Rightarrow> active s | f # r \<Rightarrow> Some f)
      else active s)"
  by (simp add: loadChats_def Let_def fold_dedupe_step split: list.splits)

text \<open>
  C7. A response that is a bare object \<open>d\<close> makes the chat list \<open>[d]\<close>, and \<open>d\<close> the
  active chat if none was active when the load was started. For an array response the new
  chat list has pairwise different canonical ids, keeps the order of the response, and for
  every id \<open>k\<close> holds exactly the first entry of the response that carries \<open>k\<close>; the first
  entry of the response becomes the active chat if none was active when the load was
  started (also when a chat has been activated while the request was in flight), and the
  active chat is left alone otherwise. A chat, once active, is never deactivated; so when no
  chat is active as the response arrives, none was active at the start either, and the first
  entry becomes the active chat.
\<close>

theorem loadChats_coerces_and_dedupes:
  "chats (loadChats (ObjectData d) captured s) = [d] \<and>
   active (loadChats (ObjectData d) captured s) = (if captured = None then Some d else active s) \<and>
   distinct (map canonical_id (chats (loadChats (ArrayData data) captured s))) \<and>
   subseq (chats (loadChats (ArrayData data) captured s)) data \<and>
   find (\<lambda>c. canonical_id c = k) (chats (loadChats (ArrayData data) captured s)) =
     find (\<lambda>c. canonical_id c = k) data \<and>
   active (loadChats (ArrayData data) captured s) =
     (if captured = None then (case data of [] \<Rightarrow> active s | first # rest \<Rightarrow> Some first)
      else active s) \<and>
   ((captured \<noteq> None \<longrightarrow> active s \<noteq> None) \<and> active s = None \<longrightarrow>
      active (loadChats (ObjectData d) captured s) = Some d \<and>
      active (loadChats (ArrayData (d # data)) captured s) = Some d)"
proof (intro conjI impI)
  show a: "active (loadChats (ArrayData data) captured s) =
     (if captured = None then (case data of [] \<Rightarrow> active s | first # rest \<Rightarrow> Some first)
      else active s)" for data
    by (cases data) (simp_all add: loadChats_array_active)
  show "chats (loadChats (ObjectData d) captured s) = [d]"
    by (simp add: loadChats_def Let_def)
  show o: "active (loadChats (ObjectData d) captured s) =
      (if captured = None then Some d else active s)"
    by (simp add: loadChats_def Let_def)
  assume n: "(captured \<noteq> None \<longrightarrow> active s \<noteq> None) \<and> active s = None"
  then have c: "captured = None" by blast
  show "active (loadChats (ObjectData d) captured s) = Some d"
    using o c by simp
  show "active (loadChats (ArrayData (d # data)) captured s) = Some d"
    using a[of "d # data"] c by simp
qed (simp_all add: loadChats_array_chats firsts_distinct firsts_subseq firsts_find)

theorem loadChats_coerces_and_dedupes_witness:
  "chats (loadChats (ObjectData [(''id'', JStr ''c1'')]) None state0) = [[(''id'', JStr ''c1'')]] \<and>
   active (loadChats (ObjectData [(''id'', JStr ''c1'')]) None state0) =
     Some [(''id'', JStr ''c1'')] \<and>
   active (loadChats (ArrayData [[(''id'', JStr ''c1'')], [(''id'', JStr ''c2'')]]) None state0) =
     Some [(''id'', JStr ''c1'')] \<and>
   active (loadChats (ArrayData [[(''id'', JStr ''c1'')], [(''id'', JStr ''c2'')]]) None
             (state0\<lparr>active := Some [(''id'', JStr ''c9'')]\<rparr>)) =
     Some [(''id'', JStr ''c1'')] \<and>
   active (loadChats (ArrayData [[(''id'', JStr ''c1'')], [(''id'', JStr ''c2'')]])
             (Some [(''id'', JStr ''c9'')])
             (state0\<lparr>active := Some [(''id'', JStr ''c9'')]\<rparr>)) =
     Some [(''id'', JStr ''c9'')] \<and>
   chats (loadChats
     (ArrayData [[(''id'', JStr ''c1''), (''name'', JStr ''x'')],
                 [(''_id'', JStr ''c2'')],
                 [(''_id'', JStr ''c1''), (''name'', JStr ''y'')]]) None state0) =
     [[(''id'', JStr ''c1''), (''name'', JStr ''x'')], [(''_id'', JStr ''c2'')]]"
proof -
  let ?c1 = "[(''id'', JStr ''c1'')]"
  let ?two = "[[(''id'', JStr ''c2'')]]"
  let ?busy = "state0\<lparr>active := Some [(''id'', JStr ''c9'')]\<rparr>"
  have idle: "(None \<noteq> None \<longrightarrow> active state0 \<noteq> None) \<and> active state0 = None"
    by (simp add: state0_def)
  note fresh = loadChats_coerces_and_dedupes
    [where d = ?c1 and data = ?two and captured = None and s = state0 and k = "''c1''"]
  have "chats (loadChats (ObjectData ?c1) None state0) = [?c1]"
    using fresh by simp
  moreover have "active (loadChats (ObjectData ?c1) None state0) = Some ?c1 \<and>
      active (loadChats (ArrayData (?c1 # ?two)) None state0) = Some ?c1"
    using fresh idle by blast
  moreover have "active (loadChats (ArrayData (?c1 # ?two)) None ?busy) = Some ?c1"
    using loadChats_coerces_and_dedupes
      [where data = "?c1 # ?two" and captured = None and s = ?busy]
    by simp
  moreover have "active (loadChats (ArrayData (?c1 # ?two)) (Some [(''id'', JStr ''c9'')]) ?busy) =
      Some [(''id'', JStr ''c9'')]"
    using loadChats_coerces_and_dedupes
      [where data = "?c1 # ?two" and captured = "Some [(''id'', JStr ''c9'')]" and s = ?busy]
    by simp
  moreover have "chats (loadChats
     (ArrayData [[(''id'', JStr ''c1''), (''name'', JStr ''x'')],
                 [(''_id'', JStr ''c2'')],
                 [(''_id'', JStr ''c1''), (''name'', JStr ''y'')]]) None state0) =
     [[(''id'', JStr ''c1''), (''name'', JStr ''x'')], [(''_id'', JStr ''c2'')]]"
    by (simp add: eval_defs loadChats_array_chats)
  ultimately show ?thesis by simp
qed

section \<open>The canonical id of an entity without id fields\<close>

lemma canonical_id_js_obj: "canonical_id_js (JObj x) = Inr (canonical_id x)"
  by (simp add: canonical_id_js_def canonical_id_def raw_id_def js_or_def)

lemma canonical_id_absent:
  "map_of x ''id'' = None \<Longrightarrow> map_of x ''_id'' = None \<Longrightarrow> canonical_id x = ''undefined''"
  by (simp add: canonical_id_def raw_id_def js_or_def fld_def)

text \<open>
  C6, as the claim states it, fails: an entity with neither id field gets the key
  \<^verbatim>\<open>"undefined"\<close>, which is not empty, equals the key of an entity whose id is the string
  \<^verbatim>\<open>"undefined"\<close>, and equals the key of every other entity without id fields. So
  \<^verbatim>\<open>loadChats\<close> drops the second of two such chats, and the message:new updater drops a
  message without id fields when the thread already holds one.
\<close>

theorem canonical_id_absent_counterexample:
  "canonical_id [(''name'', JStr ''a'')] \<noteq> [] \<and>
   canonical_id [(''name'', JStr ''a'')] = canonical_id [(''id'', JStr ''undefined'')] \<and>
   canonical_id [(''name'', JStr ''a'')] = canonical_id [(''name'', JStr ''b'')] \<and>
   chats (loadChats (ArrayData [[(''name'', JStr ''a'')], [(''name'', JStr ''b'')]]) None state0) =
     [[(''name'', JStr ''a'')]] \<and>
   handleNewMessage_setMessages [(''content'', JStr ''second'')] [[(''content'', JStr ''first'')]] =
     [[(''content'', JStr ''first'')]]"
  by (simp add: eval_defs loadChats_array_chats handleNewMessage_setMessages_def)

text \<open>
  C6, amended. On every object the derivation of the canonical id returns a string and
  throws nothing. When both id fields are absent that string is \<^verbatim>\<open>"undefined"\<close>; this is
  the key of every entity without id fields, so two such chats in one response are
  deduplicated against each other and only the first is kept.
\<close>

theorem canonical_id_total_undefined_key:
  "canonical_id_js (JObj x) = Inr (canonical_id x) \<and>
   (map_of x ''id'' = None \<and> map_of x ''_id'' = None \<longrightarrow>
      canonical_id x = ''undefined'' \<and>
      (map_of y ''id'' = None \<and> map_of y ''_id'' = None \<longrightarrow>
         canonical_id y = canonical_id x \<and>
         chats (loadChats (ArrayData [x, y]) captured s) = [x]))"
  by (simp add: canonical_id_js_obj canonical_id_absent loadChats_array_chats)

theorem canonical_id_total_undefined_key_witness:
  "canonical_id_js (JObj [(''name'', JStr ''a'')]) = Inr ''undefined'' \<and>
   chats (loadChats (ArrayData [[(''name'', JStr ''a'')], [(''name'', JStr ''b'')]]) None state0) =
     [[(''name'', JStr ''a'')]]"
  using canonical_id_total_undefined_key
    [of "[(''name'', JStr ''a'')]" "[(''name'', JStr ''b'')]" None state0]
  by simp

section \<open>Status events\<close>

lemma patched_status_ok:
  "status_patched userId status old (JObj (patched_status old userId status))"
  by (simp add: status_patched_def patched_status_def status_map_def update_conv')

lemma status_messages_frame:
  "list_all2
     (\<lambda>m m'. (canonical_id m \<noteq> js_String messageId \<longrightarrow> m' = m) \<and>
              (\<forall>k. k \<noteq> ''status'' \<longrightarrow> fld m' k = fld m k) \<and>
              (canonical_id m = js_String messageId \<longrightarrow>
                 status_patched userId status (fld m ''status'') (fld m' ''status'')))
     prev (messageStatus_setMessages messageId userId status prev)"
  by (simp add: messageStatus_setMessages_def list_all2_map2 list_all2_same Let_def
        fld_set_field patched_status_ok)

lemma status_chats_frame:
  "list_all2
     (\<lambda>c c'. (\<not> last_message_matches (js_String messageId) c \<longrightarrow> c' = c) \<and>
              (\<forall>k. k \<noteq> ''lastMessage'' \<longrightarrow> fld c' k = fld c k) \<and>
              (last_message_matches (js_String messageId) c \<longrightarrow>
                 (\<exists>lm'. fld c' ''lastMessage'' = JObj lm' \<and>
                    (\<forall>k. k \<noteq> ''status'' \<longrightarrow>
                       fld lm' k = fld (own_props (fld c ''lastMessage'')) k) \<and>
                    status_patched userId status
                      (read_prop (fld c ''lastMessage'') ''status'') (fld lm' ''status''))))
     prev (messageStatus_setChats messageId userId status prev)"
  by (simp add: messageStatus_setChats_def list_all2_map2 list_all2_same Let_def
        fld_set_field patched_status_ok last_message_matches_def)

lemma status_messages_noop:
  "list_all (\<lambda>m. canonical_id m \<noteq> js_String messageId) prev \<Longrightarrow>
   messageStatus_setMessages messageId userId status prev = prev"
  by (simp add: messageStatus_setMessages_def list_all_iff map_idI Let_def)

lemma status_chats_noop:
  "list_all (\<lambda>c. \<not> last_message_matches (js_String messageId) c) prev \<Longrightarrow>
   messageStatus_setChats messageId userId status prev = prev"
  unfolding messageStatus_setChats_def
  by (rule map_idI) (auto simp: list_all_iff last_message_matches_def Let_def)

text \<open>
  C8. Let \<open>p\<close> be the payload of a message:status event. If its \<^verbatim>\<open>messageId\<close> is the
  canonical id of no message of the thread and of no chat's cached last message, the state
  after the handler is the state before it. In every case the handler changes nothing but
  the thread and the chat list; both keep their length and order; an entry that does not
  match is unchanged; a matching message differs from the old one in the field
  \<^verbatim>\<open>status\<close> only, which is the old status map with the entry of \<^verbatim>\<open>userId\<close> set to the
  event's status; a chat whose last message matches differs in the field \<^verbatim>\<open>lastMessage\<close>
  only, and that snapshot differs in its \<^verbatim>\<open>status\<close> only, patched the same way.
\<close>

theorem message_status_frame:
  "(list_all (\<lambda>m. canonical_id m \<noteq> js_String (fld p ''messageId'')) (messages s) \<and>
    list_all (\<lambda>c. \<not> last_message_matches (js_String (fld p ''messageId'')) c) (chats s) \<longrightarrow>
      messageStatus p s = s) \<and>
   messageStatus p s =
     s\<lparr>messages := messages (messageStatus p s), chats := chats (messageStatus p s)\<rparr> \<and>
   list_all2
     (\<lambda>m m'. (canonical_id m \<noteq> js_String (fld p ''messageId'') \<longrightarrow> m' = m) \<and>
              (\<forall>k. k \<noteq> ''status'' \<longrightarrow> fld m' k = fld m k) \<and>
              (canonical_id m = js_String (fld p ''messageId'') \<longrightarrow>
                 status_patched (fld p ''userId'') (fld p ''status'')
                   (fld m ''status'') (fld m' ''status'')))
     (messages s) (messages (messageStatus p s)) \<and>
   list_all2
     (\<lambda>c c'. (\<not> last_message_matches (js_String (fld p ''messageId'')) c \<longrightarrow> c' = c) \<and>
              (\<forall>k. k \<noteq> ''lastMessage'' \<longrightarrow> fld c' k = fld c k) \<and>
              (last_message_matches (js_String (fld p ''messageId'')) c \<longrightarrow>
                 (\<exists>lm'. fld c' ''lastMessage'' = JObj lm' \<and>
                    (\<forall>k. k \<noteq> ''status'' \<longrightarrow>
                       fld lm' k = fld (own_props (fld c ''lastMessage'')) k) \<and>
                    status_patched (fld p ''userId'') (fld p ''status'')
                      (read_prop (fld c ''lastMessage'') ''status'') (fld lm' ''status''))))
     (chats s) (chats (messageStatus p s))"
proof (intro conjI impI)
  assume "list_all (\<lambda>m. canonical_id m \<noteq> js_String (fld p ''messageId'')) (messages s) \<and>
    list_all (\<lambda>c. \<not> last_message_matches (js_String (fld p ''messageId'')) c) (chats s)"
  then show "messageStatus p s = s"
    by (simp add: messageStatus_def Let_def status_messages_noop status_chats_noop)
next
  show "messageStatus p s =
     s\<lparr>messages := messages (messageStatus p s), chats := chats (messageStatus p s)\<rparr>"
    by (simp add: messageStatus_def Let_def)
next
  have "messages (messageStatus p s) =
        messageStatus_setMessages (fld p ''messageId'') (fld p ''userId'') (fld p ''status'')
          (messages s)"
    by (simp add: messageStatus_def Let_def)
  then show "list_all2
     (\<lambda>m m'. (canonical_id m \<noteq> js_String (fld p ''messageId'') \<longrightarrow> m' = m) \<and>
              (\<forall>k. k \<noteq> ''status'' \<longrightarrow> fld m' k = fld m k) \<and>
              (canonical_id m = js_String (fld p ''messageId'') \<longrightarrow>
                 status_patched (fld p ''userId'') (fld p ''status'')
                   (fld m ''status'') (fld m' ''status'')))
     (messages s) (messages (messageStatus p s))"
    using status_messages_frame by simp
next
  have "chats (messageStatus p s) =
        messageStatus_setChats (fld p ''messageId'') (fld p ''userId'') (fld p ''status'')
          (chats s)"
    by (simp add: messageStatus_def Let_def)
  then show "list_all2
     (\<lambda>c c'. (\<not> last_message_matches (js_String (fld p ''messageId'')) c \<longrightarrow> c' = c) \<and>
              (\<forall>k. k \<noteq> ''lastMessage'' \<longrightarrow> fld c' k = fld c k) \<and>
              (last_message_matches (js_String (fld p ''messageId'')) c \<longrightarrow>
                 (\<exists>lm'. fld c' ''lastMessage'' = JObj lm' \<and>
                    (\<forall>k. k \<noteq> ''status'' \<longrightarrow>
                       fld lm' k = fld (own_props (fld c ''lastMessage'')) k) \<and>
                    status_patched (fld p ''userId'') (fld p ''status'')
                      (read_prop (fld c ''lastMessage'') ''status'') (fld lm' ''status''))))
     (chats s) (chats (messageStatus p s))"
    using status_chats_frame by simp
qed

theorem message_status_frame_witness:
  "messageStatus
     [(''messageId'', JStr ''m9''), (''userId'', JStr ''u2''), (''status'', JStr ''seen'')]
     (state0\<lparr>messages := [[(''id'', JStr ''m1''), (''sender'', JStr ''u1'')]],
             chats := [[(''id'', JStr ''c1''),
                        (''lastMessage'', JObj [(''_id'', JStr ''m1'')])]]\<rparr>) =
   state0\<lparr>messages := [[(''id'', JStr ''m1''), (''sender'', JStr ''u1'')]],
           chats := [[(''id'', JStr ''c1''), (''lastMessage'', JObj [(''_id'', JStr ''m1'')])]]\<rparr> \<and>
   messages (messageStatus
     [(''messageId'', JStr ''m1''), (''userId'', JStr ''u2''), (''status'', JStr ''seen'')]
     (state0\<lparr>messages := [[(''id'', JStr ''m1''), (''sender'', JStr ''u1'')],
                           [(''id'', JStr ''m2''), (''sender'', JStr ''u1'')]]\<rparr>)) =
     [[(''id'', JStr ''m1''), (''sender'', JStr ''u1''),
       (''status'', JObj [(''u2'', JStr ''seen'')])],
      [(''id'', JStr ''m2''), (''sender'', JStr ''u1'')]]"
proof -
  let ?p = "[(''messageId'', JStr ''m9''), (''userId'', JStr ''u2''), (''status'', JStr ''seen'')]"
  let ?s = "state0\<lparr>messages := [[(''id'', JStr ''m1''), (''sender'', JStr ''u1'')]],
                   chats := [[(''id'', JStr ''c1''),
                              (''lastMessage'', JObj [(''_id'', JStr ''m1'')])]]\<rparr>"
  have no_match:
    "list_all (\<lambda>m. canonical_id m \<noteq> js_String (fld ?p ''messageId'')) (messages ?s) \<and>
     list_all (\<lambda>c. \<not> last_message_matches (js_String (fld ?p ''messageId'')) c) (chats ?s)"
    by (simp add: eval_defs last_message_matches_def read_prop_def)
  have "messageStatus ?p ?s = ?s"
    using message_status_frame [of ?p ?s, THEN conjunct1, THEN mp, OF no_match] .
  moreover have
    "messages (messageStatus
       [(''messageId'', JStr ''m1''), (''userId'', JStr ''u2''), (''status'', JStr ''seen'')]
       (state0\<lparr>messages := [[(''id'', JStr ''m1''), (''sender'', JStr ''u1'')],
                             [(''id'', JStr ''m2''), (''sender'', JStr ''u1'')]]\<rparr>)) =
     [[(''id'', JStr ''m1''), (''sender'', JStr ''u1''),
       (''status'', JObj [(''u2'', JStr ''seen'')])],
      [(''id'', JStr ''m2''), (''sender'', JStr ''u1'')]]"
    by (simp add: eval_defs messageStatus_def messageStatus_setMessages_def
          patched_status_def set_field_def Let_def)
  ultimately show ?thesis by (rule conjI)
qed

section \<open>Decryption failures\<close>

text \<open>
  C9. Whatever the two library calls do, \<^verbatim>\<open>decryptMessage\<close> returns a string and throws
  nothing. When one of them throws (the decryption fails), the string is the placeholder
  \<^verbatim>\<open>[Invalid Encrypted Data]\<close>; when none throws, it is the decoded text.
\<close>

theorem decryptMessage_never_throws:
  "(\<exists>t. decryptMessage aes_decrypt to_utf8 c = Inr t) \<and>
   (\<forall>e. decryptMessage_try aes_decrypt to_utf8 c = Inl e \<longrightarrow>
        decryptMessage aes_decrypt to_utf8 c = Inr ''[Invalid Encrypted Data]'') \<and>
   (\<forall>t. decryptMessage_try aes_decrypt to_utf8 c = Inr t \<longrightarrow>
        decryptMessage aes_decrypt to_utf8 c = Inr t)"
proof (cases "decryptMessage_try aes_decrypt to_utf8 c")
  case (Inl e)
  then show ?thesis by (simp add: decryptMessage_def)
next
  case (Inr t)
  then show ?thesis by (simp add: decryptMessage_def)
qed

theorem decryptMessage_never_throws_witness:
  "decryptMessage (\<lambda>c k. Inr c)
     (\<lambda>b. case b of JStr t \<Rightarrow> Inr t | _ \<Rightarrow> Inl (Thrown ''Malformed UTF-8 data''))
     (JNum 7) = Inr ''[Invalid Encrypted Data]''"
  using decryptMessage_never_throws
    [of "\<lambda>c k. Inr c"
        "\<lambda>b. case b of JStr t \<Rightarrow> Inr t | _ \<Rightarrow> Inl (Thrown ''Malformed UTF-8 data'')"
        "JNum 7"]
  by (simp add: decryptMessage_try_def)

section \<open>Activating a chat\<close>

lemma clear_unread_zero: "unread_of (clear_unread cid prev) cid = 0"
  by (auto simp: clear_unread_def unread_of_def delete_conv' split: option.splits)

lemma clear_unread_other: "k \<noteq> cid \<Longrightarrow> map_of (clear_unread cid prev) k = map_of prev k"
  by (simp add: clear_unread_def)

lemma clear_unread_deleted:
  "unread_of prev cid \<noteq> 0 \<Longrightarrow> map_of (clear_unread cid prev) cid = None"
  by (auto simp: clear_unread_def unread_of_def delete_conv' split: option.splits)

lemma seen_ids_eq:
  "seen_ids u msgs = map raw_id (filter (\<lambda>m. from_other u m \<and> truthy (raw_id m)) msgs)"
  by (simp add: seen_ids_def from_other_def filter_map comp_def Let_def conj_commute)

text \<open>
  C3, as the claim states it, fails: activating a chat while the thread holds no message of
  another user emits nothing at all (line 548 guards the emit with \<^verbatim>\<open>ids.length\<close>),
  although the unread entry is cleared.
\<close>

theorem activation_without_messages_counterexample:
  "emitted (activation_effect
      (state0\<lparr>active := Some [(''id'', JStr ''c1'')], unreadCounts := [(''c1'', 2)]\<rparr>)) = [] \<and>
   unreadCounts (activation_effect
      (state0\<lparr>active := Some [(''id'', JStr ''c1'')], unreadCounts := [(''c1'', 2)]\<rparr>)) = []"
  by (simp add: activation_effect_def clear_unread_def seen_ids_def eval_defs Let_def)

text \<open>
  C3, amended. When the effect runs for an active chat \<open>a\<close>: the unread counter of \<open>a\<close>
  reads zero afterwards, its entry is removed if it was not zero, and the counters of the
  other chats are untouched. Let \<open>ids\<close> be the ids of the cached messages that are not
  authored by the current user and have a truthy id, in thread order. If \<open>ids\<close> is not
  empty and the socket can emit, exactly one event \<^verbatim>\<open>message:seen\<close> with
  \<^verbatim>\<open>messageIds = ids\<close> is emitted; otherwise nothing is emitted. Nothing else of the
  state changes.
\<close>

theorem activation_clears_unread_and_marks_seen:
  assumes "active s = Some a"
  shows "unread_of (unreadCounts (activation_effect s)) (canonical_id a) = 0 \<and>
         (unread_of (unreadCounts s) (canonical_id a) \<noteq> 0 \<longrightarrow>
            map_of (unreadCounts (activation_effect s)) (canonical_id a) = None) \<and>
         (\<forall>k. k \<noteq> canonical_id a \<longrightarrow>
            map_of (unreadCounts (activation_effect s)) k = map_of (unreadCounts s) k) \<and>
         emitted (activation_effect s) =
           emitted s @
           (let ids = map raw_id
                        (filter (\<lambda>m. from_other (user s) m \<and> truthy (raw_id m)) (messages s))
            in if ids \<noteq> [] \<and> can_emit s
               then [(''message:seen'', JObj [(''messageIds'', JArr ids)])] else []) \<and>
         activation_effect s =
           s\<lparr>unreadCounts := unreadCounts (activation_effect s),
             emitted := emitted (activation_effect s)\<rparr>"
proof -
  have u: "unreadCounts (activation_effect s) = clear_unread (canonical_id a) (unreadCounts s)"
    using assms by (simp add: activation_effect_def Let_def try_emit_def split: option.splits)
  have e: "emitted (activation_effect s) =
           emitted s @
           (let ids = seen_ids (user s) (messages s)
            in if ids \<noteq> [] \<and> can_emit s
               then [(''message:seen'', JObj [(''messageIds'', JArr ids)])] else [])"
    using assms
    by (simp add: activation_effect_def Let_def try_emit_def can_emit_def split: option.splits)
  have r: "activation_effect s =
           s\<lparr>unreadCounts := unreadCounts (activation_effect s),
             emitted := emitted (activation_effect s)\<rparr>"
    using assms by (simp add: activation_effect_def Let_def try_emit_def split: option.splits)
  show ?thesis
    using r by (simp add: u e seen_ids_eq clear_unread_zero clear_unread_other clear_unread_deleted)
qed

theorem activation_clears_unread_and_marks_seen_witness:
  "unread_of (unreadCounts (activation_effect
      (state0\<lparr>active := Some [(''id'', JStr ''c1'')],
              unreadCounts := [(''c1'', 2), (''c2'', 1)],
              messages := [[(''id'', JStr ''m1''), (''sender'', JStr ''u2'')],
                           [(''id'', JStr ''m2''), (''sender'', JStr ''u1'')],
                           [(''_id'', JStr ''m3''), (''sender'', JStr ''u3'')]]\<rparr>))) ''c1'' = 0 \<and>
   emitted (activation_effect
      (state0\<lparr>active := Some [(''id'', JStr ''c1'')],
              unreadCounts := [(''c1'', 2), (''c2'', 1)],
              messages := [[(''id'', JStr ''m1''), (''sender'', JStr ''u2'')],
                           [(''id'', JStr ''m2''), (''sender'', JStr ''u1'')],
                           [(''_id'', JStr ''m3''), (''sender'', JStr ''u3'')]]\<rparr>)) =
     [(''message:seen'', JObj [(''messageIds'', JArr [JStr ''m1'', JStr ''m3''])])]"
  using activation_clears_unread_and_marks_seen
    [of "state0\<lparr>active := Some [(''id'', JStr ''c1'')],
                unreadCounts := [(''c1'', 2), (''c2'', 1)],
                messages := [[(''id'', JStr ''m1''), (''sender'', JStr ''u2'')],
                             [(''id'', JStr ''m2''), (''sender'', JStr ''u1'')],
                             [(''_id'', JStr ''m3''), (''sender'', JStr ''u3'')]]\<rparr>"
        "[(''id'', JStr ''c1'')]"]
  by (simp add: eval_defs from_other_def user_id_def can_emit_def Let_def)

section \<open>Properties of sending\<close>







lemma nat_dec_digit: "n < 10 \<Longrightarrow> nat_dec n = [digit_char n]"
  by (simp add: nat_dec.simps)








section \<open>Acknowledgments of a send\<close>

text \<open>
  C4, as the claim states it, fails: an ack \<^verbatim>\<open>{ ok: false }\<close> that carries no error is
  taken for an unexpected format (line 518) and the optimistic entry that \<^verbatim>\<open>send\<close> had
  appended stays in the thread.
\<close>

theorem send_ack_ok_false_counterexample:
  "send 7 ''2024-05-01T10:00:00.000Z'' (\<lambda>k. True) (\<lambda>t. t)
     (state0\<lparr>active := Some [(''id'', JStr ''c1'')], input := ''hi''\<rparr>) =
     Inr (state0\<lparr>active := Some [(''id'', JStr ''c1'')],
                 messages := [[(''id'', JStr ''temp-7''), (''chat'', JStr ''c1''),
                               (''sender'', JStr ''u1''), (''content'', JStr ''hi''),
                               (''createdAt'', JStr ''2024-05-01T10:00:00.000Z''),
                               (''status'', JObj [(''u1'', JStr ''sent'')]),
                               (''optimistic'', JBool True)]],
                 emitted := [(''message:send'',
                              JObj [(''chatId'', JStr ''c1''), (''content'', JStr ''hi'')])]\<rparr>) \<and>
   messages (send_ack ''temp-7''
      (Some \<lparr>ack_ok = JBool False, ack_message = None, ack_error = JUndefined\<rparr>)
      (state0\<lparr>active := Some [(''id'', JStr ''c1'')],
                 messages := [[(''id'', JStr ''temp-7''), (''chat'', JStr ''c1''),
                               (''sender'', JStr ''u1''), (''content'', JStr ''hi''),
                               (''createdAt'', JStr ''2024-05-01T10:00:00.000Z''),
                               (''status'', JObj [(''u1'', JStr ''sent'')]),
                               (''optimistic'', JBool True)]],
                 emitted := [(''message:send'',
                              JObj [(''chatId'', JStr ''c1''), (''content'', JStr ''hi'')])]\<rparr>)) =
     [[(''id'', JStr ''temp-7''), (''chat'', JStr ''c1''),
       (''sender'', JStr ''u1''), (''content'', JStr ''hi''),
       (''createdAt'', JStr ''2024-05-01T10:00:00.000Z''),
       (''status'', JObj [(''u1'', JStr ''sent'')]),
       (''optimistic'', JBool True)]]"
  by (simp add: send_def send_message_def optimisticMsg_def send_ack_def state0_def js_trim_def
        is_space_def is_white_space_def raw_id_def js_or_def fld_def nat_dec_digit digit_char_def
        Let_def)

text \<open>
  C4, amended. For an ack whose \<^verbatim>\<open>ok\<close> is falsy: if it carries a truthy \<^verbatim>\<open>error\<close>,
  the thread afterwards is the old thread without the entries whose \<^verbatim>\<open>id\<close> is the
  temporary id (so no such entry remains and nothing is added), and the alert
  \<^verbatim>\<open>Message failed: ...\<close> is shown; if it carries no truthy \<^verbatim>\<open>error\<close>, the state is
  unchanged.
\<close>

theorem send_ack_error_rolls_back:
  assumes "\<not> truthy (ack_ok ak)"
  shows "(truthy (ack_error ak) \<longrightarrow>
            messages (send_ack tempId (Some ak) s) =
              filter (\<lambda>m. fld m ''id'' \<noteq> JStr tempId) (messages s) \<and>
            list_all (\<lambda>m. fld m ''id'' \<noteq> JStr tempId) (messages (send_ack tempId (Some ak) s)) \<and>
            alerts (send_ack tempId (Some ak) s) =
              alerts s @ [''Message failed: '' @ js_String (ack_error ak)]) \<and>
         (\<not> truthy (ack_error ak) \<longrightarrow> send_ack tempId (Some ak) s = s)"
  using assms by (simp add: send_ack_def list_all_iff)

theorem send_ack_error_rolls_back_witness:
  "messages (send_ack ''temp-7''
      (Some \<lparr>ack_ok = JBool False, ack_message = None, ack_error = JStr ''Not a member''\<rparr>)
      (state0\<lparr>messages := [[(''id'', JStr ''m1'')],
                            [(''id'', JStr ''temp-7''), (''optimistic'', JBool True)]]\<rparr>)) =
     [[(''id'', JStr ''m1'')]]"
  using send_ack_error_rolls_back
    [of "\<lparr>ack_ok = JBool False, ack_message = None, ack_error = JStr ''Not a member''\<rparr>"
        "''temp-7''"
        "state0\<lparr>messages := [[(''id'', JStr ''m1'')],
                              [(''id'', JStr ''temp-7''), (''optimistic'', JBool True)]]\<rparr>"]
  by (simp add: fld_def)

end
